theory Spec2Isabelle
  imports Main
begin

section \<open>The file store bot: data model\<close>

text \<open>
  The repository holds the same Telegram bot in two storage variants: \<^verbatim>\<open>index.js\<close>
  keeps one in-memory object \<^verbatim>\<open>db\<close> that is written to \<^verbatim>\<open>database.json\<close>, the
  second program keeps its records in MongoDB through Mongoose models. Definitions taken
  from \<^verbatim>\<open>index.js\<close> carry the suffix \<open>_idx\<close>, those of the MongoDB program the
  suffix \<open>_mongo\<close>; a function that reads the same in both carries neither.

  A handler is modelled as a function from the stored state and the answers of the
  outside world to the new state, the list of outside calls it made (in order) and the
  return point it reached. The calls whose failure a handler turns into a decision are
  inputs that may fail: \<^verbatim>\<open>getChatMember\<close>, the shortener's HTTP GET, the sending of the
  file and, inside \<^verbatim>\<open>checkSubscription\<close>, the reading of the channels and the sending of
  the join prompt. Inserting a file record fails where the schema's validators and unique
  indexes reject it. The other text replies, the log channel and the other reads and
  updates of the store are taken to succeed. Message texts are given without their emoji
  and markup, the long ones by their telling sentence; the profile fields \<^verbatim>\<open>firstName\<close>
  and \<^verbatim>\<open>username\<close>, which no handler reads back, are left out of the user records.
\<close>

subsection \<open>JavaScript values\<close>

text \<open>The values a parsed HTTP response body can hold, and property access on them.\<close>

datatype jsval =
    JUndefined
  | JNull
  | JBool bool
  | JNum int
  | JStr string
  | JObj "(string \<times> jsval) list"

datatype js_error = TypeError

text \<open>\<^verbatim>\<open>v.k\<close>: reading a property of \<^verbatim>\<open>null\<close> or \<^verbatim>\<open>undefined\<close> throws, a primitive has
  none of the properties read here, an object yields the property or \<^verbatim>\<open>undefined\<close>.\<close>

fun get_prop :: "jsval \<Rightarrow> string \<Rightarrow> js_error + jsval" where
  "get_prop JUndefined k = Inl TypeError"
| "get_prop JNull k = Inl TypeError"
| "get_prop (JObj kvs) k = Inr (case map_of kvs k of None \<Rightarrow> JUndefined | Some v \<Rightarrow> v)"
| "get_prop v k = Inr JUndefined"

text \<open>Truthiness of an optional string (\<^verbatim>\<open>undefined\<close>, \<^verbatim>\<open>null\<close> and \<^verbatim>\<open>''\<close> are falsy),
  and \<^verbatim>\<open>a || b\<close> on optional strings.\<close>

fun truthy :: "string option \<Rightarrow> bool" where
  "truthy None = False"
| "truthy (Some s) = (s \<noteq> [])"

definition or_else :: "string option \<Rightarrow> string option \<Rightarrow> string option" where
  "or_else a b = (if truthy a then a else b)"

subsection \<open>Records of the stores\<close>

datatype fileType = document | video | audio | photo

record channel =
  channelId :: string
  ch_username :: string
  ch_title :: string

record settings =
  adlink_domain :: "string option"
  adlink_api :: "string option"
  auto_delete :: "int option"
  protect_content :: "bool option"

record user_base =
  verifiedAt :: "int option"

record user_idx = user_base +
  verified :: bool

record user_mongo = user_base +
  isVerified :: bool
  isBanned :: bool
  lastActive :: int
  filesShared :: int
  filesAccessed :: int
  joinedAt :: int

record file_base =
  fileId :: string
  fileType :: fileType
  caption :: "string option"
  uploadedBy :: int

record file_idx = file_base +
  uploadedAt :: int

record file_mongo = file_base +
  fileName :: "string option"
  fileSize :: "int option"
  shortCode :: string
  views :: int
  downloads :: int
  isActive :: bool
  createdAt :: int

text \<open>\<^verbatim>\<open>FileSchema\<close> also declares \<^verbatim>\<open>fileUniqueId\<close>, with a unique index. No handler writes
  or reads it, so every stored record lacks it and the field is left out of the record;
  what its index does to an insert is part of \<open>File_save\<close> below.\<close>

text \<open>The store: \<^verbatim>\<open>db.users\<close>, \<^verbatim>\<open>db.files\<close>, \<^verbatim>\<open>db.settings\<close>, \<^verbatim>\<open>db.channels\<close> of
  \<^verbatim>\<open>index.js\<close>; the collections \<^verbatim>\<open>User\<close> (unique \<^verbatim>\<open>userId\<close>), \<^verbatim>\<open>File\<close> (unique
  \<^verbatim>\<open>shortCode\<close>), \<^verbatim>\<open>Setting\<close> and \<^verbatim>\<open>Channel\<close> of the MongoDB program.\<close>

record ('u, 'f) db =
  users :: "int \<rightharpoonup> 'u"
  files :: "string \<rightharpoonup> 'f"
  settings :: settings
  channels :: "channel list"

type_synonym db_idx = "(user_idx, file_idx) db"
type_synonym db_mongo = "(user_mongo, file_mongo) db"

record config =
  botUsername :: string
  admins :: "int list"
  ownerId :: int

subsection \<open>The outside world and what a handler does to it\<close>

datatype member_result = QueryFailed | Status string

datatype http_result = RequestFailed | Response jsval

datatype send_result = SendFailed | Sent int

text \<open>The answers of one handler run: the membership status Telegram reports (or the
  failure of the query), the shortener's answer to a GET (a failure stands for a
  timeout, a network error or a non-2xx status, on which axios rejects), the outcome of
  sending a file, the value of the \<open>k\<close>-th call of \<^verbatim>\<open>generateCode()\<close>, the clock, whether
  \<^verbatim>\<open>Channel.find()\<close> answers, and whether the reply that carries the join prompt goes
  through.\<close>

record world =
  getChatMember :: "string \<Rightarrow> int \<Rightarrow> member_result"
  axios_get :: "string \<Rightarrow> http_result"
  replyWithFile :: "fileType \<Rightarrow> string \<Rightarrow> send_result"
  generateCode :: "nat \<Rightarrow> string"
  now :: int
  Channel_find_ok :: bool
  joinPrompt_ok :: bool

datatype message =
    Text string
  | StartMessage
  | JoinPrompt "channel list"
  | VerifyPrompt jsval string
  | Uploaded string string

datatype call =
    GetChatMember string int
  | AxiosGet string
  | Reply message
  | SendFile fileType string "string option" bool
  | ScheduleDelete int int
  | AnswerCbQuery string
  | ForwardToLog
  | LogMessage string

text \<open>The return points of the handlers, named after the terminal states of a request.\<close>

datatype outcome =
    START_INFO
  | NOT_FOUND
  | BLOCKED
  | PENDING_SUBSCRIPTION "channel list"
  | PENDING_VERIFICATION jsval
  | DELIVERED int
  | DELIVERY_FAILED
  | VERIFIED
  | STORED string
  | UPLOAD_FAILED
  | THREW
  | ADMIN_ONLY
  | USAGE
  | DONE

record 'd run =
  state :: 'd
  trace :: "call list"
  outcome :: outcome

section \<open>Helper functions of the bot\<close>

subsection \<open>The shortener\<close>

text \<open>\<^verbatim>\<open>encodeURIComponent\<close> on a string of bytes: every byte but the unreserved ones
  becomes \<^verbatim>\<open>%XX\<close>.\<close>

definition unreserved :: "char \<Rightarrow> bool" where
  "unreserved c \<longleftrightarrow>
     c \<in> set (''ABCDEFGHIJKLMNOPQRSTUVWXYZabcdefghijklmnopqrstuvwxyz0123456789-_.!~*()'' @ [CHR 0x27])"

definition hexdigit :: "nat \<Rightarrow> char" where
  "hexdigit n = ''0123456789ABCDEF'' ! (n mod 16)"

definition encodeURIComponent :: "string \<Rightarrow> string" where
  "encodeURIComponent s =
     concat (map (\<lambda>c. if unreserved c then [c]
                       else [CHR ''%'', hexdigit (of_char c div 16), hexdigit (of_char c)]) s)"

definition apiUrl :: "string \<Rightarrow> string \<Rightarrow> string \<Rightarrow> string" where
  "apiUrl domain api url = domain @ ''/api?api='' @ api @ ''&url='' @ encodeURIComponent url"

definition deepLink :: "config \<Rightarrow> string \<Rightarrow> string" where
  "deepLink cfg code = ''https://t.me/'' @ botUsername cfg @ ''?start='' @ code"

text \<open>\<^verbatim>\<open>createShortLink(url)\<close>. The two programs differ only in where the domain and the
  key come from (\<^verbatim>\<open>db.settings\<close>, or \<^verbatim>\<open>getSetting\<close> with the default \<^verbatim>\<open>null\<close>); both read
  as an optional string here. The whole body is inside \<^verbatim>\<open>try\<close>: a rejected request and
  a \<^verbatim>\<open>TypeError\<close> on \<^verbatim>\<open>response.data.status\<close> end in the \<^verbatim>\<open>catch\<close>, which returns
  \<^verbatim>\<open>url\<close>. The result is paired with the calls made.\<close>

definition createShortLink :: "settings \<Rightarrow> world \<Rightarrow> string \<Rightarrow> jsval \<times> call list" where
  "createShortLink s w url =
     (case (adlink_domain s, adlink_api s) of
        (Some domain, Some api) \<Rightarrow>
          if domain = [] \<or> api = [] then (JStr url, [])
          else
            (case axios_get w (apiUrl domain api url) of
               RequestFailed \<Rightarrow> (JStr url, [AxiosGet (apiUrl domain api url)])
             | Response data \<Rightarrow>
                 (case get_prop data ''status'' of
                    Inl e \<Rightarrow> (JStr url, [AxiosGet (apiUrl domain api url)])
                  | Inr st \<Rightarrow>
                      if st = JStr ''error'' then (JStr url, [AxiosGet (apiUrl domain api url)])
                      else
                        (case get_prop data ''shortenedUrl'' of
                           Inl e \<Rightarrow> (JStr url, [AxiosGet (apiUrl domain api url)])
                         | Inr short \<Rightarrow> (short, [AxiosGet (apiUrl domain api url)]))))
      | _ \<Rightarrow> (JStr url, []))"

subsection \<open>The subscription check\<close>

definition satisfying :: "string list" where
  "satisfying = [''member'', ''administrator'', ''creator'']"

text \<open>The \<^verbatim>\<open>for (const ch of channels)\<close> loop, the same text in both programs: a status
  outside the list pushes the channel onto \<^verbatim>\<open>notJoined\<close>; the \<^verbatim>\<open>catch\<close> around the query
  logs the error and goes on to the next channel.\<close>

fun notJoined_loop :: "world \<Rightarrow> int \<Rightarrow> channel list \<Rightarrow> channel list \<Rightarrow> channel list" where
  "notJoined_loop w uid [] notJoined = notJoined"
| "notJoined_loop w uid (ch # chs) notJoined =
     (case getChatMember w (channelId ch) uid of
        QueryFailed \<Rightarrow> notJoined_loop w uid chs notJoined
      | Status s \<Rightarrow>
          if s \<in> set satisfying then notJoined_loop w uid chs notJoined
          else notJoined_loop w uid chs (notJoined @ [ch]))"

text \<open>What one run of \<^verbatim>\<open>checkSubscription(ctx)\<close> gives: the value returned, whether
  the function threw instead of returning (then \<open>passed\<close> is false), the local
  \<^verbatim>\<open>notJoined\<close> and the calls made.\<close>

record subscription =
  passed :: bool
  threw :: bool
  notJoined :: "channel list"
  calls :: "call list"

text \<open>\<^verbatim>\<open>checkSubscription\<close> of \<^verbatim>\<open>index.js\<close>. Nothing guards the reply with the join prompt:
  when it is rejected the function throws.\<close>

definition checkSubscription_idx :: "world \<Rightarrow> int \<Rightarrow> channel list \<Rightarrow> subscription" where
  "checkSubscription_idx w uid chs =
     (if chs = [] then \<lparr>passed = True, threw = False, notJoined = [], calls = []\<rparr>
      else
        let nj = notJoined_loop w uid chs [];
            queries = map (\<lambda>ch. GetChatMember (channelId ch) uid) chs
        in if nj \<noteq> [] then
             \<lparr>passed = False, threw = \<not> joinPrompt_ok w, notJoined = nj,
              calls = queries @ [Reply (JoinPrompt nj)]\<rparr>
           else \<lparr>passed = True, threw = False, notJoined = [], calls = queries\<rparr>)"

text \<open>\<^verbatim>\<open>checkSubscription\<close> of the MongoDB program: the whole body is inside a \<^verbatim>\<open>try\<close> whose
  \<^verbatim>\<open>catch\<close> returns \<^verbatim>\<open>true\<close>. It is reached when \<^verbatim>\<open>Channel.find()\<close> throws, and when the
  reply with the join prompt is rejected - after \<^verbatim>\<open>notJoined\<close> was found not to be
  empty. \<open>chs\<close> is what \<^verbatim>\<open>Channel.find()\<close> returns when it answers.\<close>

definition checkSubscription_mongo :: "world \<Rightarrow> int \<Rightarrow> channel list \<Rightarrow> subscription" where
  "checkSubscription_mongo w uid chs =
     (if \<not> Channel_find_ok w then \<lparr>passed = True, threw = False, notJoined = [], calls = []\<rparr>
      else if chs = [] then \<lparr>passed = True, threw = False, notJoined = [], calls = []\<rparr>
      else
        let nj = notJoined_loop w uid chs [];
            queries = map (\<lambda>ch. GetChatMember (channelId ch) uid) chs
        in if nj \<noteq> [] then
             \<lparr>passed = \<not> joinPrompt_ok w, threw = False, notJoined = nj,
              calls = queries @ [Reply (JoinPrompt nj)]\<rparr>
           else \<lparr>passed = True, threw = False, notJoined = [], calls = queries\<rparr>)"

section \<open>The MongoDB program\<close>

subsection \<open>The User and File models\<close>

text \<open>A document that an upsert inserts carries the schema's defaults.\<close>

definition new_user :: "int \<Rightarrow> user_mongo" where
  "new_user t =
     \<lparr>verifiedAt = None, isVerified = False, isBanned = False, lastActive = t,
      filesShared = 0, filesAccessed = 0, joinedAt = t\<rparr>"

text \<open>The paths that the handlers write in an update of a \<^verbatim>\<open>User\<close>. \<^verbatim>\<open>UserSchema\<close>
  declares \<^verbatim>\<open>isVerified\<close>, \<^verbatim>\<open>isBanned\<close>, \<^verbatim>\<open>verifiedAt\<close>, \<^verbatim>\<open>lastActive\<close>, \<^verbatim>\<open>filesShared\<close>;
  it declares no path \<^verbatim>\<open>verified\<close>, so writing that path changes no declared field.\<close>

datatype user_update =
    Set_lastActive int
  | Set_verified bool
  | Set_verifiedAt int
  | Set_isBanned bool
  | Inc_filesShared int

fun apply_update :: "user_update \<Rightarrow> user_mongo \<Rightarrow> user_mongo" where
  "apply_update (Set_lastActive t) u = u\<lparr>lastActive := t\<rparr>"
| "apply_update (Set_verified b) u = u"
| "apply_update (Set_verifiedAt t) u = u\<lparr>verifiedAt := Some t\<rparr>"
| "apply_update (Set_isBanned b) u = u\<lparr>isBanned := b\<rparr>"
| "apply_update (Inc_filesShared n) u = u\<lparr>filesShared := filesShared u + n\<rparr>"

text \<open>\<^verbatim>\<open>User.findOneAndUpdate({ userId }, update, { upsert })\<close> at time \<open>t\<close>.\<close>

definition User_findOneAndUpdate ::
    "bool \<Rightarrow> int \<Rightarrow> user_update list \<Rightarrow> int \<Rightarrow> db_mongo \<Rightarrow> db_mongo" where
  "User_findOneAndUpdate upsert uid upd t d =
     (case users d uid of
        Some u \<Rightarrow> d\<lparr>users := (users d)(uid \<mapsto> fold apply_update upd u)\<rparr>
      | None \<Rightarrow>
          if upsert then d\<lparr>users := (users d)(uid \<mapsto> fold apply_update upd (new_user t))\<rparr>
          else d)"

definition updateUserActivity :: "world \<Rightarrow> int \<Rightarrow> db_mongo \<Rightarrow> db_mongo" where
  "updateUserActivity w uid d = User_findOneAndUpdate True uid [Set_lastActive (now w)] (now w) d"

text \<open>\<^verbatim>\<open>File.findOne({ shortCode: args, isActive: true })\<close>.\<close>

definition File_findOne_active :: "db_mongo \<Rightarrow> string \<Rightarrow> file_mongo option" where
  "File_findOne_active d code =
     (case files d code of
        Some f \<Rightarrow> if isActive f then Some f else None
      | None \<Rightarrow> None)"

text \<open>\<^verbatim>\<open>getSetting(key, defaultValue)\<close> for the two settings read with a default. In
  \<^verbatim>\<open>index.js\<close> the same values are \<^verbatim>\<open>db.settings.protect_content\<close> and
  \<^verbatim>\<open>db.settings.auto_delete\<close>, where a missing key is falsy and not above zero.\<close>

definition getSetting_protect_content :: "settings \<Rightarrow> bool" where
  "getSetting_protect_content s = (case protect_content s of None \<Rightarrow> False | Some b \<Rightarrow> b)"

definition getSetting_auto_delete :: "settings \<Rightarrow> int" where
  "getSetting_auto_delete s = (case auto_delete s of None \<Rightarrow> 0 | Some n \<Rightarrow> n)"

definition autoDelete :: "settings \<Rightarrow> int \<Rightarrow> call list" where
  "autoDelete s msgId =
     (if getSetting_auto_delete s > 0 then [ScheduleDelete msgId (getSetting_auto_delete s)] else [])"

subsection \<open>The start handler\<close>

text \<open>The \<^verbatim>\<open>// Send file\<close> block of \<^verbatim>\<open>bot.start\<close>: \<open>pre\<close> are the calls made so far. A
  rejected send goes to the \<^verbatim>\<open>catch\<close> of the block, before the counters are touched.
  \<^verbatim>\<open>autoDelete\<close> is not awaited and reads its setting first, so its timer is set after the
  log message is on its way.\<close>

definition send_file_mongo ::
    "world \<Rightarrow> int \<Rightarrow> string \<Rightarrow> file_mongo \<Rightarrow> user_mongo \<Rightarrow> call list \<Rightarrow> db_mongo \<Rightarrow> db_mongo run" where
  "send_file_mongo w uid code file user pre d =
     (let protectContent = getSetting_protect_content (settings d);
          sending = SendFile (fileType file) (fileId file) (caption file) protectContent
      in case replyWithFile w (fileType file) (fileId file) of
           SendFailed \<Rightarrow>
             \<lparr>state = d,
              trace = pre @ [sending, Reply (Text ''Error sending file. Please contact admin.'')],
              outcome = DELIVERY_FAILED\<rparr>
         | Sent msgId \<Rightarrow>
             \<lparr>state = d\<lparr>files := (files d)(code \<mapsto> file\<lparr>downloads := downloads file + 1\<rparr>),
                         users := (users d)(uid \<mapsto> user\<lparr>filesAccessed := filesAccessed user + 1\<rparr>)\<rparr>,
              trace = pre @ [sending, LogMessage ''File Downloaded''] @ autoDelete (settings d) msgId,
              outcome = DELIVERED msgId\<rparr>)"

text \<open>\<^verbatim>\<open>bot.start\<close>: \<open>args\<close> is \<^verbatim>\<open>ctx.message.text.split(' ')[1]\<close>, \<open>uid\<close> is
  \<^verbatim>\<open>ctx.from.id\<close>.\<close>

definition start_mongo :: "config \<Rightarrow> world \<Rightarrow> int \<Rightarrow> string option \<Rightarrow> db_mongo \<Rightarrow> db_mongo run" where
  "start_mongo cfg w uid args d0 =
     (let d = updateUserActivity w uid d0 in
      case args of
        None \<Rightarrow> \<lparr>state = d, trace = [Reply StartMessage], outcome = START_INFO\<rparr>
      | Some code \<Rightarrow>
          if code = [] then \<lparr>state = d, trace = [Reply StartMessage], outcome = START_INFO\<rparr>
          else
            (case File_findOne_active d code of
               None \<Rightarrow>
                 \<lparr>state = d, trace = [Reply (Text ''File not found or has been removed.'')],
                  outcome = NOT_FOUND\<rparr>
             | Some file \<Rightarrow>
                 let user = users d uid in
                 if (case user of None \<Rightarrow> False | Some u \<Rightarrow> isBanned u) then
                   \<lparr>state = d, trace = [Reply (Text ''You are banned from using this bot.'')],
                    outcome = BLOCKED\<rparr>
                 else
                   let sub = checkSubscription_mongo w uid (channels d) in
                   if \<not> passed sub then
                     \<lparr>state = d, trace = calls sub, outcome = PENDING_SUBSCRIPTION (notJoined sub)\<rparr>
                   else
                     (case (case user of None \<Rightarrow> None
                            | Some u \<Rightarrow> if isVerified u then Some u else None) of
                        None \<Rightarrow>
                          let (shortUrl, shortening) =
                                createShortLink (settings d) w (deepLink cfg code)
                          in \<lparr>state = d\<lparr>files := (files d)(code \<mapsto> file\<lparr>views := views file + 1\<rparr>)\<rparr>,
                              trace = calls sub @ shortening @ [Reply (VerifyPrompt shortUrl code)],
                              outcome = PENDING_VERIFICATION shortUrl\<rparr>
                      | Some u \<Rightarrow> send_file_mongo w uid code file u (calls sub) d)))"

subsection \<open>The verify callback\<close>

text \<open>\<^verbatim>\<open>bot.action(/verify_(.+)/)\<close>: the update document is
  \<^verbatim>\<open>{ verified: true, verifiedAt: new Date(), firstName, username }\<close>, with upsert.\<close>

definition verify_mongo :: "world \<Rightarrow> int \<Rightarrow> string \<Rightarrow> db_mongo \<Rightarrow> db_mongo run" where
  "verify_mongo w uid code d =
     \<lparr>state = User_findOneAndUpdate True uid [Set_verified True, Set_verifiedAt (now w)] (now w) d,
      trace = [AnswerCbQuery ''Verification successful!'',
               Reply (Text ''You are now verified and can access all files directly.''),
               LogMessage ''New User Verified''],
      outcome = VERIFIED\<rparr>"

subsection \<open>The file handler\<close>

text \<open>\<^verbatim>\<open>ctx.message\<close> of an upload: one of the four kinds that \<^verbatim>\<open>bot.on\<close> lets through
  (with \<^verbatim>\<open>file_id\<close>, the optional names and \<^verbatim>\<open>file_size\<close>; a photo is its list of sizes,
  which is not empty), and the optional caption.\<close>

datatype media =
    DocumentMsg string "string option" "int option"
  | VideoMsg string "string option" "int option"
  | AudioMsg string "string option" "string option" "int option"
  | PhotoMsg "string \<times> int option" "(string \<times> int option) list"

record upload =
  media :: media
  msg_caption :: "string option"

text \<open>The \<^verbatim>\<open>if/else if\<close> chain of the MongoDB file handler:
  \<^verbatim>\<open>(fileId, fileType, fileName, fileSize)\<close>.\<close>

fun media_mongo :: "media \<Rightarrow> string \<times> fileType \<times> string option \<times> int option" where
  "media_mongo (DocumentMsg fid file_name file_size) = (fid, document, file_name, file_size)"
| "media_mongo (VideoMsg fid file_name file_size) = (fid, video, or_else file_name (Some ''Video''), file_size)"
| "media_mongo (AudioMsg fid title file_name file_size) =
     (fid, audio, or_else title (or_else file_name (Some ''Audio'')), file_size)"
| "media_mongo (PhotoMsg p ps) = (fst (last (p # ps)), photo, Some ''Photo'', snd (last (p # ps)))"

text \<open>The loop \<^verbatim>\<open>while (!isUnique)\<close>: draw \<open>k\<close> is taken unless a file with that code
  exists, active or not (\<^verbatim>\<open>File.findOne({ shortCode })\<close>). It has no bound: the value is
  \<open>None\<close> when every draw from \<open>k\<close> on is taken.\<close>

partial_function (option) uniqueCode :: "world \<Rightarrow> db_mongo \<Rightarrow> nat \<Rightarrow> string option" where
  "uniqueCode w d k =
     (if files d (generateCode w k) \<noteq> None then uniqueCode w d (Suc k)
      else Some (generateCode w k))"

text \<open>\<^verbatim>\<open>file.save()\<close> of a new \<^verbatim>\<open>File\<close>. \<^verbatim>\<open>shortCode\<close> is \<^verbatim>\<open>required\<close>, which the empty
  string does not satisfy. \<^verbatim>\<open>fileUniqueId\<close> has a unique index and is never set: the
  index holds the missing field as \<^verbatim>\<open>null\<close>, so the insert is rejected as a duplicate
  as soon as the collection holds any record. The value is \<open>None\<close> when the save throws.\<close>

definition File_save :: "db_mongo \<Rightarrow> file_mongo \<Rightarrow> db_mongo option" where
  "File_save d file =
     (if shortCode file = [] \<or> files d \<noteq> Map.empty then None
      else Some (d\<lparr>files := (files d)(shortCode file \<mapsto> file)\<rparr>))"

text \<open>The file handler. Its body is inside \<^verbatim>\<open>try\<close>: when the save throws, the \<^verbatim>\<open>catch\<close>
  replies with the error text; nothing was stored, the uploader's \<^verbatim>\<open>filesShared\<close> was
  not counted and no link is sent.\<close>

definition upload_mongo :: "config \<Rightarrow> world \<Rightarrow> int \<Rightarrow> upload \<Rightarrow> db_mongo \<Rightarrow> db_mongo run option" where
  "upload_mongo cfg w uid msg d =
     (case media_mongo (media msg) of
        (fid, ftype, fname, fsize) \<Rightarrow>
          (case uniqueCode w d 0 of
             None \<Rightarrow> None
           | Some code \<Rightarrow>
               let file = \<lparr>fileId = fid, fileType = ftype,
                           caption = or_else (msg_caption msg) fname, uploadedBy = uid,
                           fileName = fname, fileSize = fsize, shortCode = code,
                           views = 0, downloads = 0, isActive = True, createdAt = now w\<rparr>
               in (case File_save d file of
                     None \<Rightarrow>
                       Some \<lparr>state = d,
                             trace = [Reply (Text ''Error uploading file. Please try again.'')],
                             outcome = UPLOAD_FAILED\<rparr>
                   | Some d1 \<Rightarrow>
                       Some \<lparr>state = User_findOneAndUpdate True uid [Inc_filesShared 1] (now w) d1,
                             trace = [ForwardToLog, LogMessage ''New File Uploaded'',
                                      Reply (Uploaded (deepLink cfg code) code)],
                             outcome = STORED code\<rparr>)))"

subsection \<open>Admin commands on users and files\<close>

definition isAdmin_mongo :: "config \<Rightarrow> int \<Rightarrow> bool" where
  "isAdmin_mongo cfg uid \<longleftrightarrow> uid \<in> set (admins cfg) \<or> uid = ownerId cfg"

text \<open>\<^verbatim>\<open>/ban\<close> and \<^verbatim>\<open>/unban\<close>: \<open>arg\<close> is the \<^verbatim>\<open>parseInt\<close> of the argument (\<open>None\<close> for
  \<^verbatim>\<open>NaN\<close>); \<^verbatim>\<open>/deletefile\<close>: \<open>arg\<close> is the code given.\<close>

definition ban_mongo :: "config \<Rightarrow> world \<Rightarrow> int \<Rightarrow> int option \<Rightarrow> db_mongo \<Rightarrow> db_mongo run" where
  "ban_mongo cfg w uid arg d =
     (if \<not> isAdmin_mongo cfg uid then
        \<lparr>state = d, trace = [Reply (Text ''Admin only command.'')], outcome = ADMIN_ONLY\<rparr>
      else case arg of
        None \<Rightarrow> \<lparr>state = d, trace = [Reply (Text ''Usage: /ban <user_id>'')], outcome = USAGE\<rparr>
      | Some target \<Rightarrow>
          if target = 0 then
            \<lparr>state = d, trace = [Reply (Text ''Usage: /ban <user_id>'')], outcome = USAGE\<rparr>
          else
            \<lparr>state = User_findOneAndUpdate True target [Set_isBanned True] (now w) d,
             trace = [Reply (Text ''User has been banned.'')], outcome = DONE\<rparr>)"

definition deletefile_mongo :: "config \<Rightarrow> int \<Rightarrow> string option \<Rightarrow> db_mongo \<Rightarrow> db_mongo run" where
  "deletefile_mongo cfg uid arg d =
     (if \<not> isAdmin_mongo cfg uid then
        \<lparr>state = d, trace = [Reply (Text ''Admin only command.'')], outcome = ADMIN_ONLY\<rparr>
      else case arg of
        None \<Rightarrow> \<lparr>state = d, trace = [Reply (Text ''Usage: /deletefile <code>'')], outcome = USAGE\<rparr>
      | Some code \<Rightarrow>
          if code = [] then
            \<lparr>state = d, trace = [Reply (Text ''Usage: /deletefile <code>'')], outcome = USAGE\<rparr>
          else
            (case files d code of
               None \<Rightarrow> \<lparr>state = d, trace = [Reply (Text ''File not found.'')], outcome = NOT_FOUND\<rparr>
             | Some f \<Rightarrow>
                 \<lparr>state = d\<lparr>files := (files d)(code \<mapsto> f\<lparr>isActive := False\<rparr>)\<rparr>,
                  trace = [Reply (Text ''File has been deleted.'')], outcome = DONE\<rparr>))"

section \<open>The program of index.js\<close>

subsection \<open>Reading db.files and db.users\<close>

text \<open>\<^verbatim>\<open>db.files\<close> is a plain object (the literal \<^verbatim>\<open>{}\<close>, or what \<^verbatim>\<open>JSON.parse\<close> built), and
  \<^verbatim>\<open>db.files[args]\<close> is a property read with any string the user sent: besides the stored
  records it finds the members that every plain object inherits from
  \<^verbatim>\<open>Object.prototype\<close>, all of them truthy. The keys of \<^verbatim>\<open>db.users\<close> are numbers, which
  name no inherited member.\<close>

datatype 'a property = Missing | Inherited | Own 'a

definition Object_prototype :: "string list" where
  "Object_prototype =
     [''constructor'', ''__defineGetter__'', ''__defineSetter__'', ''hasOwnProperty'',
      ''__lookupGetter__'', ''__lookupSetter__'', ''isPrototypeOf'', ''propertyIsEnumerable'',
      ''toString'', ''valueOf'', ''__proto__'', ''toLocaleString'']"

definition files_get :: "(string \<rightharpoonup> 'f) \<Rightarrow> string \<Rightarrow> 'f property" where
  "files_get fs k =
     (case fs k of
        Some f \<Rightarrow> Own f
      | None \<Rightarrow> if k \<in> set Object_prototype then Inherited else Missing)"

subsection \<open>The start handler\<close>

text \<open>The \<^verbatim>\<open>try\<close> block that sends the file. An inherited member has no \<^verbatim>\<open>fileType\<close>:
  no branch of the chain sends, \<^verbatim>\<open>sentMsg\<close> stays \<^verbatim>\<open>undefined\<close> and
  \<^verbatim>\<open>sentMsg.message_id\<close> throws into the \<^verbatim>\<open>catch\<close>. Here \<^verbatim>\<open>autoDelete\<close> is synchronous.\<close>

definition send_file_idx :: "world \<Rightarrow> file_idx property \<Rightarrow> call list \<Rightarrow> db_idx \<Rightarrow> db_idx run" where
  "send_file_idx w found pre d =
     (case found of
        Own file \<Rightarrow>
          (let sending = SendFile (fileType file) (fileId file) (caption file)
                           (getSetting_protect_content (settings d))
           in case replyWithFile w (fileType file) (fileId file) of
                SendFailed \<Rightarrow>
                  \<lparr>state = d,
                   trace = pre @ [sending, Reply (Text ''Error sending file. Please contact admin.'')],
                   outcome = DELIVERY_FAILED\<rparr>
              | Sent msgId \<Rightarrow>
                  \<lparr>state = d,
                   trace = pre @ [sending] @ autoDelete (settings d) msgId
                           @ [LogMessage ''File Downloaded''],
                   outcome = DELIVERED msgId\<rparr>)
      | _ \<Rightarrow>
          \<lparr>state = d,
           trace = pre @ [Reply (Text ''Error sending file. Please contact admin.'')],
           outcome = DELIVERY_FAILED\<rparr>)"

definition start_idx :: "config \<Rightarrow> world \<Rightarrow> int \<Rightarrow> string option \<Rightarrow> db_idx \<Rightarrow> db_idx run" where
  "start_idx cfg w uid args d =
     (case args of
        None \<Rightarrow> \<lparr>state = d, trace = [Reply StartMessage], outcome = START_INFO\<rparr>
      | Some code \<Rightarrow>
          if code = [] then \<lparr>state = d, trace = [Reply StartMessage], outcome = START_INFO\<rparr>
          else
            (case files_get (files d) code of
               Missing \<Rightarrow>
                 \<lparr>state = d, trace = [Reply (Text ''File not found or expired.'')],
                  outcome = NOT_FOUND\<rparr>
             | found \<Rightarrow>
                 let sub = checkSubscription_idx w uid (channels d) in
                 if threw sub then \<lparr>state = d, trace = calls sub, outcome = THREW\<rparr>
                 else if \<not> passed sub then
                   \<lparr>state = d, trace = calls sub, outcome = PENDING_SUBSCRIPTION (notJoined sub)\<rparr>
                 else
                   let user = (case users d uid of
                                 None \<Rightarrow> \<lparr>verifiedAt = None, verified = False\<rparr>
                               | Some u \<Rightarrow> u);
                       d1 = d\<lparr>users := (users d)(uid \<mapsto> user)\<rparr>
                   in if \<not> verified user then
                        let (shortUrl, shortening) =
                              createShortLink (settings d1) w (deepLink cfg code)
                        in \<lparr>state = d1,
                            trace = calls sub @ shortening @ [Reply (VerifyPrompt shortUrl code)],
                            outcome = PENDING_VERIFICATION shortUrl\<rparr>
                      else send_file_idx w found (calls sub) d1))"

subsection \<open>The verify callback\<close>

definition verify_idx :: "world \<Rightarrow> int \<Rightarrow> string \<Rightarrow> db_idx \<Rightarrow> db_idx run" where
  "verify_idx w uid code d =
     \<lparr>state = d\<lparr>users := (users d)(uid \<mapsto>
                 (case users d uid of
                    None \<Rightarrow> \<lparr>verifiedAt = Some (now w), verified = True\<rparr>
                  | Some u \<Rightarrow> u\<lparr>verified := True, verifiedAt := Some (now w)\<rparr>))\<rparr>,
      trace = [AnswerCbQuery ''Verification successful!'',
               Reply (Text ''You can now access all files directly.''),
               LogMessage ''New User Verified''],
      outcome = VERIFIED\<rparr>"

subsection \<open>The file handler\<close>

text \<open>The chain of \<^verbatim>\<open>index.js\<close>: \<^verbatim>\<open>(fileId, fileType, caption)\<close>.\<close>

fun media_idx :: "media \<Rightarrow> string \<times> fileType \<times> string option" where
  "media_idx (DocumentMsg fid file_name file_size) = (fid, document, file_name)"
| "media_idx (VideoMsg fid file_name file_size) = (fid, video, or_else file_name (Some ''Video File''))"
| "media_idx (AudioMsg fid title file_name file_size) =
     (fid, audio, or_else title (or_else file_name (Some ''Audio File'')))"
| "media_idx (PhotoMsg p ps) = (fst (last (p # ps)), photo, Some ''Photo'')"

text \<open>Under the comment \<^verbatim>\<open>// Generate unique code\<close> the handler draws once and assigns
  \<^verbatim>\<open>db.files[shortCode]\<close>.\<close>

definition upload_idx :: "config \<Rightarrow> world \<Rightarrow> int \<Rightarrow> upload \<Rightarrow> db_idx \<Rightarrow> db_idx run" where
  "upload_idx cfg w uid msg d =
     (case media_idx (media msg) of
        (fid, ftype, cap) \<Rightarrow>
          let shortCode = generateCode w 0;
              file = \<lparr>fileId = fid, fileType = ftype,
                      caption = (if truthy (msg_caption msg) then msg_caption msg else cap),
                      uploadedBy = uid, uploadedAt = now w\<rparr>
          in \<lparr>state = d\<lparr>files := (files d)(shortCode \<mapsto> file)\<rparr>,
              trace = [ForwardToLog, LogMessage ''New File Uploaded'',
                       Reply (Uploaded (deepLink cfg shortCode) shortCode)],
              outcome = STORED shortCode\<rparr>)"

section \<open>Predicates on channels and calls\<close>

text \<open>A channel refuses a user when its membership query answers with a status outside
  the list. A query that fails refuses nobody.\<close>

definition refuses :: "world \<Rightarrow> int \<Rightarrow> channel \<Rightarrow> bool" where
  "refuses w uid ch =
     (case getChatMember w (channelId ch) uid of
        QueryFailed \<Rightarrow> False
      | Status s \<Rightarrow> s \<notin> set satisfying)"

fun is_send :: "call \<Rightarrow> bool" where
  "is_send (SendFile t f c p) = True"
| "is_send other = False"

fun is_gate_call :: "call \<Rightarrow> bool" where
  "is_gate_call (GetChatMember c u) = True"
| "is_gate_call (AxiosGet u) = True"
| "is_gate_call (SendFile t f c p) = True"
| "is_gate_call other = False"

section \<open>Example states\<close>

definition bot_cfg :: config where
  "bot_cfg = \<lparr>botUsername = ''FileStoreBot'', admins = [1], ownerId = 1\<rparr>"

definition news :: channel where
  "news = \<lparr>channelId = ''-1001234567890'', ch_username = ''@news'', ch_title = ''News''\<rparr>"

text \<open>A world that gives every membership query, every HTTP GET and every send the
  same answer; its first draw is \<^verbatim>\<open>a1b2c3d4\<close>, all later ones \<^verbatim>\<open>e5f6g7h8\<close>; the channels
  can be read and the join prompt goes through.\<close>

definition world_of :: "member_result \<Rightarrow> http_result \<Rightarrow> send_result \<Rightarrow> world" where
  "world_of m h s =
     \<lparr>getChatMember = (\<lambda>c u. m), axios_get = (\<lambda>u. h), replyWithFile = (\<lambda>t f. s),
      generateCode = (\<lambda>k. if k = 0 then ''a1b2c3d4'' else ''e5f6g7h8''), now = 1000,
      Channel_find_ok = True, joinPrompt_ok = True\<rparr>"

definition adlink :: settings where
  "adlink =
     \<lparr>adlink_domain = Some ''https://upload.mycodingtools.in'', adlink_api = Some ''150873c1be29'',
      auto_delete = Some 60, protect_content = Some True\<rparr>"

definition report_idx :: file_idx where
  "report_idx =
     \<lparr>fileId = ''BQACAgQAAx0'', fileType = document, caption = Some ''report.pdf'',
      uploadedBy = 1, uploadedAt = 900\<rparr>"

definition report_mongo :: file_mongo where
  "report_mongo =
     \<lparr>fileId = ''BQACAgQAAx0'', fileType = document, caption = Some ''report.pdf'',
      uploadedBy = 1, fileName = Some ''report.pdf'', fileSize = Some 2048,
      shortCode = ''a1b2c3d4'', views = 0, downloads = 0, isActive = True, createdAt = 900\<rparr>"

text \<open>Stores that hold the one file \<^verbatim>\<open>a1b2c3d4\<close>, with the given users and channels.\<close>

definition store_idx :: "(int \<rightharpoonup> user_idx) \<Rightarrow> channel list \<Rightarrow> db_idx" where
  "store_idx us chs =
     \<lparr>users = us, files = [''a1b2c3d4'' \<mapsto> report_idx], settings = adlink, channels = chs\<rparr>"

definition store_mongo :: "(int \<rightharpoonup> user_mongo) \<Rightarrow> channel list \<Rightarrow> db_mongo" where
  "store_mongo us chs =
     \<lparr>users = us, files = [''a1b2c3d4'' \<mapsto> report_mongo], settings = adlink, channels = chs\<rparr>"

text \<open>A MongoDB store that holds no file yet.\<close>

definition fresh_mongo :: db_mongo where
  "fresh_mongo = \<lparr>users = Map.empty, files = Map.empty, settings = adlink, channels = []\<rparr>"

definition pdf :: upload where
  "pdf = \<lparr>media = DocumentMsg ''BQACAgQAAx1'' (Some ''notes.pdf'') (Some 4096), msg_caption = None\<rparr>"

text \<open>User 7 in three conditions.\<close>

definition verified_idx :: "int \<rightharpoonup> user_idx" where
  "verified_idx = [7 \<mapsto> \<lparr>verifiedAt = Some 950, verified = True\<rparr>]"

definition newcomer :: "int \<rightharpoonup> user_mongo" where
  "newcomer = [7 \<mapsto> new_user 900]"

definition verified_mongo :: "int \<rightharpoonup> user_mongo" where
  "verified_mongo = [7 \<mapsto> (new_user 900)\<lparr>isVerified := True, verifiedAt := Some 950\<rparr>]"

definition banned_mongo :: "int \<rightharpoonup> user_mongo" where
  "banned_mongo = [7 \<mapsto> (new_user 900)\<lparr>isBanned := True\<rparr>]"

section \<open>Lemmas on the helper functions\<close>

lemmas example_defs =
  bot_cfg_def news_def world_of_def adlink_def report_idx_def report_mongo_def store_idx_def
  store_mongo_def pdf_def verified_idx_def newcomer_def verified_mongo_def banned_mongo_def
  new_user_def fresh_mongo_def

lemmas handler_defs =
  start_idx_def start_mongo_def send_file_idx_def send_file_mongo_def
  checkSubscription_idx_def checkSubscription_mongo_def
  createShortLink_def files_get_def File_findOne_active_def updateUserActivity_def
  User_findOneAndUpdate_def getSetting_protect_content_def getSetting_auto_delete_def
  autoDelete_def satisfying_def refuses_def Object_prototype_def deepLink_def

lemma notJoined_loop_filter:
  "notJoined_loop w uid chs acc = acc @ filter (refuses w uid) chs"
  by (induction chs arbitrary: acc) (auto simp: refuses_def split: member_result.splits)


lemma checkSubscription_idx_passed:
  "passed (checkSubscription_idx w uid chs) \<longleftrightarrow> filter (refuses w uid) chs = []"
  by (simp add: checkSubscription_idx_def Let_def notJoined_loop_filter)

lemma checkSubscription_idx_threw:
  "threw (checkSubscription_idx w uid chs) \<longleftrightarrow>
     filter (refuses w uid) chs \<noteq> [] \<and> \<not> joinPrompt_ok w"
  by (auto simp: checkSubscription_idx_def Let_def notJoined_loop_filter)


lemma checkSubscription_idx_no_send:
  "\<not> list_ex is_send (calls (checkSubscription_idx w uid chs))"
  by (simp add: checkSubscription_idx_def Let_def list_ex_iff)




lemma checkSubscription_mongo_no_send:
  "\<not> list_ex is_send (calls (checkSubscription_mongo w uid chs))"
  by (simp add: checkSubscription_mongo_def Let_def list_ex_iff)


lemma createShortLink_no_send:
  "createShortLink s w url = (link, cs) \<Longrightarrow> \<not> list_ex is_send cs"
  by (auto simp: createShortLink_def list_ex_iff
      split: option.splits http_result.splits sum.splits if_splits)


lemma updateUserActivity_files [simp]: "files (updateUserActivity w uid d) = files d"
  and updateUserActivity_channels [simp]: "channels (updateUserActivity w uid d) = channels d"
  and updateUserActivity_settings [simp]: "settings (updateUserActivity w uid d) = settings d"
  by (simp_all add: updateUserActivity_def User_findOneAndUpdate_def split: option.splits)

lemma updateUserActivity_user:
  "users (updateUserActivity w uid d) uid =
     Some (case users d uid of None \<Rightarrow> new_user (now w) | Some u \<Rightarrow> u\<lparr>lastActive := now w\<rparr>)"
  by (simp add: updateUserActivity_def User_findOneAndUpdate_def new_user_def split: option.splits)

lemma File_findOne_active_update [simp]:
  "File_findOne_active (updateUserActivity w uid d) code = File_findOne_active d code"
  by (simp add: File_findOne_active_def)

section \<open>The subscription gate\<close>



text \<open>The two ways in which the join prompt decides the result: with the one channel
  answering \<^verbatim>\<open>left\<close> and the prompt rejected, the check of \<^verbatim>\<open>index.js\<close> throws and the
  check of the MongoDB program passes.\<close>

lemma rejected_join_prompt:
  "threw (checkSubscription_idx
      ((world_of (Status ''left'') RequestFailed SendFailed)\<lparr>joinPrompt_ok := False\<rparr>) 7 [news])
   \<and> passed (checkSubscription_mongo
      ((world_of (Status ''left'') RequestFailed SendFailed)\<lparr>joinPrompt_ok := False\<rparr>) 7 [news])
   \<and> notJoined (checkSubscription_mongo
      ((world_of (Status ''left'') RequestFailed SendFailed)\<lparr>joinPrompt_ok := False\<rparr>) 7 [news])
     = [news]"
  by (simp add: example_defs handler_defs Let_def)


section \<open>Delivery behind the gates\<close>



text \<open>A request that ends as delivered has sent a file.\<close>

lemma delivered_has_send:
  "(outcome (start_idx cfg w uid args d) = DELIVERED msgId \<longrightarrow>
      list_ex is_send (trace (start_idx cfg w uid args d)))
   \<and> (outcome (start_mongo cfg w uid args m) = DELIVERED msgId \<longrightarrow>
      list_ex is_send (trace (start_mongo cfg w uid args m)))"
  by (auto simp: start_idx_def start_mongo_def send_file_idx_def send_file_mongo_def Let_def
      split: option.splits property.splits prod.splits send_result.splits if_splits)




text \<open>The \<^verbatim>\<open>catch\<close> of the MongoDB check at work: the one channel answers \<^verbatim>\<open>left\<close> for
  the verified user 7 and the join prompt is rejected. The MongoDB program delivers the
  file; \<^verbatim>\<open>index.js\<close> throws out of the handler and sends nothing.\<close>

lemma rejected_join_prompt_at_start:
  "outcome (start_mongo bot_cfg
      ((world_of (Status ''left'') RequestFailed (Sent 55))\<lparr>joinPrompt_ok := False\<rparr>) 7
      (Some ''a1b2c3d4'') (store_mongo verified_mongo [news])) = DELIVERED 55
   \<and> outcome (start_idx bot_cfg
      ((world_of (Status ''left'') RequestFailed (Sent 55))\<lparr>joinPrompt_ok := False\<rparr>) 7
      (Some ''a1b2c3d4'') (store_idx verified_idx [news])) = THREW
   \<and> \<not> list_ex is_send (trace (start_idx bot_cfg
      ((world_of (Status ''left'') RequestFailed (Sent 55))\<lparr>joinPrompt_ok := False\<rparr>) 7
      (Some ''a1b2c3d4'') (store_idx verified_idx [news])))"
  by (simp add: example_defs handler_defs Let_def)

section \<open>Looking a code up\<close>

lemma File_findOne_active_None:
  "File_findOne_active d code = None \<longleftrightarrow>
     files d code = None \<or> (\<exists>f. files d code = Some f \<and> \<not> isActive f)"
  by (auto simp: File_findOne_active_def split: option.splits)

text \<open>In the MongoDB program a code that is unknown or belongs to an inactive record
  ends the request with the not-found reply, whatever the user and the world are.\<close>

lemma start_mongo_not_found:
  assumes "code \<noteq> []" and "File_findOne_active d code = None"
  shows "outcome (start_mongo cfg w uid (Some code) d) = NOT_FOUND
         \<and> trace (start_mongo cfg w uid (Some code) d) =
             [Reply (Text ''File not found or has been removed.'')]
         \<and> files (state (start_mongo cfg w uid (Some code) d)) = files d"
  using assms by (simp add: start_mongo_def Let_def)

text \<open>\<^verbatim>\<open>/deletefile\<close> keeps the record and clears \<^verbatim>\<open>isActive\<close>: the code stays taken and
  redeeming it ends as not found.\<close>

lemma deletefile_then_not_found:
  assumes "isAdmin_mongo cfg admin" and "code \<noteq> []" and "files d code = Some f"
  shows "outcome (start_mongo cfg w uid (Some code)
           (state (deletefile_mongo cfg admin (Some code) d))) = NOT_FOUND
         \<and> files (state (deletefile_mongo cfg admin (Some code) d)) code \<noteq> None"
  using assms by (simp add: deletefile_mongo_def start_mongo_not_found File_findOne_active_def)

text \<open>
  C5 fails in \<^verbatim>\<open>index.js\<close>. No file is stored under the code \<^verbatim>\<open>constructor\<close>, yet
  \<^verbatim>\<open>db.files['constructor']\<close> is the inherited \<^verbatim>\<open>Object\<close> function, so \<^verbatim>\<open>!file\<close> is false
  and the request goes on: an unverified user is sent the verification prompt, a
  verified one ends in the \<^verbatim>\<open>catch\<close> of the send block. Neither gets the not-found reply.
\<close>

theorem inherited_member_passes_lookup:
  "files (store_idx Map.empty []) ''constructor'' = None
   \<and> outcome (start_idx bot_cfg (world_of (Status ''member'') RequestFailed (Sent 55)) 7
        (Some ''constructor'') (store_idx Map.empty [])) =
       PENDING_VERIFICATION (JStr ''https://t.me/FileStoreBot?start=constructor'')
   \<and> outcome (start_idx bot_cfg (world_of (Status ''member'') RequestFailed (Sent 55)) 7
        (Some ''constructor'') (store_idx verified_idx [])) = DELIVERY_FAILED"
  by (simp add: example_defs handler_defs)

section \<open>The ban check\<close>

text \<open>
  C6. In the MongoDB program, when the code resolves to an active record and the user
  is banned, the request ends with BLOCKED: the only call made is the reply that tells
  the user so - no membership query, no shortener request and no send - and the files
  are unchanged.
\<close>

theorem banned_user_is_blocked:
  assumes "code \<noteq> []" and "files d code = Some f" and "isActive f"
    and "users d uid = Some u" and "isBanned u"
  shows "outcome (start_mongo cfg w uid (Some code) d) = BLOCKED
         \<and> trace (start_mongo cfg w uid (Some code) d) =
             [Reply (Text ''You are banned from using this bot.'')]
         \<and> filter is_gate_call (trace (start_mongo cfg w uid (Some code) d)) = []
         \<and> files (state (start_mongo cfg w uid (Some code) d)) = files d"
  using assms
  by (simp add: start_mongo_def Let_def File_findOne_active_def updateUserActivity_user)

theorem banned_user_is_blocked_witness:
  "outcome (start_mongo bot_cfg (world_of (Status ''member'') RequestFailed (Sent 55)) 7
      (Some ''a1b2c3d4'') (store_mongo banned_mongo [news])) = BLOCKED
   \<and> trace (start_mongo bot_cfg (world_of (Status ''member'') RequestFailed (Sent 55)) 7
      (Some ''a1b2c3d4'') (store_mongo banned_mongo [news])) =
        [Reply (Text ''You are banned from using this bot.'')]"
  using banned_user_is_blocked
    [of "''a1b2c3d4''" "store_mongo banned_mongo [news]" report_mongo 7
        "(new_user 900)\<lparr>isBanned := True\<rparr>" bot_cfg
        "world_of (Status ''member'') RequestFailed (Sent 55)"]
  by (simp add: example_defs)

text \<open>A user whom an admin has banned with \<^verbatim>\<open>/ban\<close> is blocked at the next redemption.\<close>

lemma ban_then_blocked:
  assumes "isAdmin_mongo cfg admin" and "uid \<noteq> 0" and "code \<noteq> []"
    and "files d code = Some f" and "isActive f"
  shows "outcome (start_mongo cfg w uid (Some code)
           (state (ban_mongo cfg w' admin (Some uid) d))) = BLOCKED"
  using assms
  by (simp add: ban_mongo_def start_mongo_def Let_def File_findOne_active_def
      updateUserActivity_user User_findOneAndUpdate_def new_user_def split: option.splits)

section \<open>The verification check\<close>

text \<open>
  C7. In the MongoDB program, when the code resolves to an active record and the user
  is not banned, passes the subscription check and is not verified (or has no record),
  the request ends with PENDING_VERIFICATION carrying the link that \<^verbatim>\<open>createShortLink\<close>
  returned for the deep link of the code; the record's \<^verbatim>\<open>views\<close> grows by exactly one and
  nothing else in the files changes; the calls are those of the subscription check, those
  of the shortener and the verification prompt, and no file is sent.
\<close>

theorem unverified_user_gets_challenge:
  assumes "code \<noteq> []" and "files d code = Some f" and "isActive f"
    and "case users d uid of None \<Rightarrow> True | Some u \<Rightarrow> \<not> isBanned u \<and> \<not> isVerified u"
    and "passed (checkSubscription_mongo w uid (channels d))"
  shows "outcome (start_mongo cfg w uid (Some code) d) =
           PENDING_VERIFICATION (fst (createShortLink (settings d) w (deepLink cfg code)))
         \<and> files (state (start_mongo cfg w uid (Some code) d)) =
             (files d)(code \<mapsto> f\<lparr>views := views f + 1\<rparr>)
         \<and> trace (start_mongo cfg w uid (Some code) d) =
             calls (checkSubscription_mongo w uid (channels d))
             @ snd (createShortLink (settings d) w (deepLink cfg code))
             @ [Reply (VerifyPrompt (fst (createShortLink (settings d) w (deepLink cfg code))) code)]
         \<and> \<not> list_ex is_send (trace (start_mongo cfg w uid (Some code) d))"
proof -
  obtain link cs where l: "createShortLink (settings d) w (deepLink cfg code) = (link, cs)"
    by (cases "createShortLink (settings d) w (deepLink cfg code)")
  have ns: "\<not> list_ex is_send cs" using l by (rule createShortLink_no_send)
  have nq: "\<not> list_ex is_send (calls (checkSubscription_mongo w uid (channels d)))"
    by (rule checkSubscription_mongo_no_send)
  show ?thesis using assms l ns nq
    by (auto simp: start_mongo_def Let_def File_findOne_active_def updateUserActivity_user
        new_user_def list_ex_iff split: option.splits)
qed

theorem unverified_user_gets_challenge_witness:
  "outcome (start_mongo bot_cfg (world_of (Status ''member'') RequestFailed (Sent 55)) 7
      (Some ''a1b2c3d4'') (store_mongo newcomer [news])) =
     PENDING_VERIFICATION (JStr ''https://t.me/FileStoreBot?start=a1b2c3d4'')
   \<and> map_option views (files (state (start_mongo bot_cfg
        (world_of (Status ''member'') RequestFailed (Sent 55)) 7
        (Some ''a1b2c3d4'') (store_mongo newcomer [news]))) ''a1b2c3d4'') = Some 1"
  using unverified_user_gets_challenge
    [of "''a1b2c3d4''" "store_mongo newcomer [news]" report_mongo 7
        "world_of (Status ''member'') RequestFailed (Sent 55)" bot_cfg]
  by (simp add: example_defs handler_defs)

text \<open>\<^verbatim>\<open>index.js\<close> issues the same challenge; its file records have no counters.\<close>

lemma start_idx_unverified:
  assumes "code \<noteq> []" and "files d code = Some f"
    and "case users d uid of None \<Rightarrow> True | Some u \<Rightarrow> \<not> verified u"
    and "passed (checkSubscription_idx w uid (channels d))"
  shows "outcome (start_idx cfg w uid (Some code) d) =
           PENDING_VERIFICATION (fst (createShortLink (settings d) w (deepLink cfg code)))
         \<and> files (state (start_idx cfg w uid (Some code) d)) = files d
         \<and> \<not> list_ex is_send (trace (start_idx cfg w uid (Some code) d))"
proof -
  obtain link cs where l: "createShortLink (settings d) w (deepLink cfg code) = (link, cs)"
    by (cases "createShortLink (settings d) w (deepLink cfg code)")
  have ns: "\<not> list_ex is_send cs" using l by (rule createShortLink_no_send)
  have nq: "\<not> list_ex is_send (calls (checkSubscription_idx w uid (channels d)))"
    by (rule checkSubscription_idx_no_send)
  show ?thesis using assms l ns nq
    by (auto simp: start_idx_def Let_def files_get_def list_ex_iff checkSubscription_idx_passed
        checkSubscription_idx_threw split: option.splits)
qed

section \<open>Delivery and its counters\<close>

text \<open>
  C8, as the code has it. In the MongoDB program, for a request that reaches the send
  block: when the send fails the request ends with DELIVERY_FAILED, the last call is the
  reply \<^verbatim>\<open>Error sending file. Please contact admin.\<close>, and the files and the user's
  counters are as they were (only \<^verbatim>\<open>lastActive\<close> was touched, on entry); when the send
  succeeds, \<^verbatim>\<open>downloads\<close> of the record and \<^verbatim>\<open>filesAccessed\<close> of the user each grow by one.
\<close>

theorem send_failure_and_counters:
  assumes "code \<noteq> []" and "files d code = Some f" and "isActive f"
    and "users d uid = Some u" and "\<not> isBanned u" and "isVerified u"
    and "passed (checkSubscription_mongo w uid (channels d))"
  shows "(replyWithFile w (fileType f) (fileId f) = SendFailed \<longrightarrow>
            outcome (start_mongo cfg w uid (Some code) d) = DELIVERY_FAILED
            \<and> last (trace (start_mongo cfg w uid (Some code) d)) =
                Reply (Text ''Error sending file. Please contact admin.'')
            \<and> files (state (start_mongo cfg w uid (Some code) d)) = files d
            \<and> users (state (start_mongo cfg w uid (Some code) d)) uid =
                Some (u\<lparr>lastActive := now w\<rparr>))
         \<and> (\<forall>msgId. replyWithFile w (fileType f) (fileId f) = Sent msgId \<longrightarrow>
            outcome (start_mongo cfg w uid (Some code) d) = DELIVERED msgId
            \<and> files (state (start_mongo cfg w uid (Some code) d)) =
                (files d)(code \<mapsto> f\<lparr>downloads := downloads f + 1\<rparr>)
            \<and> users (state (start_mongo cfg w uid (Some code) d)) uid =
                Some (u\<lparr>lastActive := now w, filesAccessed := filesAccessed u + 1\<rparr>))"
  using assms
  by (simp add: start_mongo_def Let_def File_findOne_active_def updateUserActivity_user
      send_file_mongo_def)

theorem send_failure_and_counters_witness:
  "outcome (start_mongo bot_cfg (world_of (Status ''member'') RequestFailed SendFailed) 7
      (Some ''a1b2c3d4'') (store_mongo verified_mongo [news])) = DELIVERY_FAILED
   \<and> files (state (start_mongo bot_cfg (world_of (Status ''member'') RequestFailed SendFailed) 7
      (Some ''a1b2c3d4'') (store_mongo verified_mongo [news]))) = [''a1b2c3d4'' \<mapsto> report_mongo]
   \<and> outcome (start_mongo bot_cfg (world_of (Status ''member'') RequestFailed (Sent 55)) 7
      (Some ''a1b2c3d4'') (store_mongo verified_mongo [news])) = DELIVERED 55
   \<and> map_option downloads (files (state (start_mongo bot_cfg
        (world_of (Status ''member'') RequestFailed (Sent 55)) 7
        (Some ''a1b2c3d4'') (store_mongo verified_mongo [news]))) ''a1b2c3d4'') = Some 1"
  using send_failure_and_counters
    [of "''a1b2c3d4''" "store_mongo verified_mongo [news]" report_mongo 7
        "(new_user 900)\<lparr>isVerified := True, verifiedAt := Some 950\<rparr>"
        "world_of (Status ''member'') RequestFailed SendFailed" bot_cfg]
    send_failure_and_counters
    [of "''a1b2c3d4''" "store_mongo verified_mongo [news]" report_mongo 7
        "(new_user 900)\<lparr>isVerified := True, verifiedAt := Some 950\<rparr>"
        "world_of (Status ''member'') RequestFailed (Sent 55)" bot_cfg]
  by (simp add: example_defs handler_defs)

text \<open>
  C8 as stated fails in one point: after a failed send the user is told to contact the
  admin. The retry-later text \<^verbatim>\<open>An error occurred. Please try again later.\<close> belongs to the
  outer \<^verbatim>\<open>catch\<close> of the handler, which a failed send does not reach.
\<close>

theorem failed_send_says_contact_admin:
  "outcome (start_mongo bot_cfg (world_of (Status ''member'') RequestFailed SendFailed) 7
      (Some ''a1b2c3d4'') (store_mongo verified_mongo [])) = DELIVERY_FAILED
   \<and> trace (start_mongo bot_cfg (world_of (Status ''member'') RequestFailed SendFailed) 7
      (Some ''a1b2c3d4'') (store_mongo verified_mongo [])) =
       [SendFile document ''BQACAgQAAx0'' (Some ''report.pdf'') True,
        Reply (Text ''Error sending file. Please contact admin.'')]
   \<and> Reply (Text ''An error occurred. Please try again later.'')
       \<notin> set (trace (start_mongo bot_cfg (world_of (Status ''member'') RequestFailed SendFailed) 7
      (Some ''a1b2c3d4'') (store_mongo verified_mongo [])))"
  by (simp add: example_defs handler_defs)

section \<open>Issuing codes\<close>

text \<open>The loop of the MongoDB file handler returns only a code under which no file is
  stored, active or not, and it returns as soon as some draw is such a code.\<close>

lemma uniqueCode_fresh:
  assumes "uniqueCode w d k = Some c"
  shows "files d c = None"
  by (rule uniqueCode.raw_induct [where P = "\<lambda>w d k c. files d c = None", OF _ assms])
    (auto split: if_splits)

lemma uniqueCode_returns:
  "files d (generateCode w n) = None \<Longrightarrow> k \<le> n \<Longrightarrow> \<exists>c. uniqueCode w d k = Some c"
proof (induction "n - k" arbitrary: k)
  case 0
  then show ?case by (subst uniqueCode.simps) simp
next
  case (Suc j)
  show ?case
  proof (cases "files d (generateCode w k) = None")
    case True
    then show ?thesis by (subst uniqueCode.simps) simp
  next
    case False
    have "\<exists>c. uniqueCode w d (Suc k) = Some c"
      using Suc by (intro Suc.hyps(1)) auto
    then show ?thesis using False by (subst uniqueCode.simps) simp
  qed
qed

text \<open>The loop reads the files and the draws only.\<close>

lemma uniqueCode_cong_Some:
  assumes "uniqueCode w d k = Some c"
  shows "files d' = files d \<longrightarrow> generateCode w' = generateCode w \<longrightarrow> uniqueCode w' d' k = Some c"
proof (rule uniqueCode.raw_induct
    [where P = "\<lambda>w d k c. files d' = files d \<longrightarrow> generateCode w' = generateCode w
                   \<longrightarrow> uniqueCode w' d' k = Some c", OF _ assms])
  fix loop :: "world \<Rightarrow> db_mongo \<Rightarrow> nat \<Rightarrow> string option"
    and w0 :: world and d0 :: db_mongo and k0 :: nat and y :: string
  assume IH: "\<And>w d k y. loop w d k = Some y \<Longrightarrow>
      files d' = files d \<longrightarrow> generateCode w' = generateCode w \<longrightarrow> uniqueCode w' d' k = Some y"
    and body: "(if files d0 (generateCode w0 k0) \<noteq> None then loop w0 d0 (Suc k0)
                else Some (generateCode w0 k0)) = Some y"
  show "files d' = files d0 \<longrightarrow> generateCode w' = generateCode w0
          \<longrightarrow> uniqueCode w' d' k0 = Some y"
  proof (intro impI)
    assume eq: "files d' = files d0" "generateCode w' = generateCode w0"
    show "uniqueCode w' d' k0 = Some y"
    proof (cases "files d0 (generateCode w0 k0) = None")
      case True
      then show ?thesis using body eq by (subst uniqueCode.simps) simp
    next
      case False
      then have "loop w0 d0 (Suc k0) = Some y" using body by simp
      then have "uniqueCode w' d' (Suc k0) = Some y" using IH eq by blast
      then show ?thesis using False eq by (subst uniqueCode.simps) simp
    qed
  qed
qed

lemma uniqueCode_cong:
  assumes "files d' = files d" and "generateCode w' = generateCode w"
  shows "uniqueCode w' d' k = uniqueCode w d k"
proof (cases "uniqueCode w d k")
  case (Some c)
  then show ?thesis using uniqueCode_cong_Some [of w d k c d' w'] assms by simp
next
  case None
  show ?thesis
  proof (cases "uniqueCode w' d' k")
    case (Some c)
    then have "uniqueCode w d k = Some c"
      using uniqueCode_cong_Some [of w' d' k c d w] assms by simp
    then show ?thesis using None by simp
  qed (simp add: None)
qed

text \<open>An upload of the MongoDB program that ends with a code has stored an active
  record under a code that no record, active or retired, had before, and has left the
  other codes alone.\<close>

lemma upload_mongo_fresh:
  assumes "upload_mongo cfg w uid msg d = Some r" and "outcome r = STORED c"
  shows "files d c = None
         \<and> (\<exists>f. files (state r) c = Some f \<and> shortCode f = c \<and> isActive f \<and> uploadedBy f = uid)
         \<and> (\<forall>c'. c' \<noteq> c \<longrightarrow> files (state r) c' = files d c')"
  using assms
  by (auto simp: upload_mongo_def Let_def User_findOneAndUpdate_def File_save_def
      dest: uniqueCode_fresh split: prod.splits option.splits if_splits)

text \<open>No handler of the MongoDB program removes a file record, so the codes stored are
  all the codes ever issued.\<close>

lemma mongo_keeps_codes:
  assumes "files d c \<noteq> None"
  shows "files (state (start_mongo cfg w uid args d)) c \<noteq> None"
    and "files (state (verify_mongo w uid code d)) c \<noteq> None"
    and "files (state (deletefile_mongo cfg uid arg d)) c \<noteq> None"
    and "files (state (ban_mongo cfg w uid target d)) c \<noteq> None"
    and "upload_mongo cfg w uid msg d = Some r \<Longrightarrow> files (state r) c \<noteq> None"
proof -
  show "files (state (start_mongo cfg w uid args d)) c \<noteq> None"
    using assms
    by (auto simp: start_mongo_def send_file_mongo_def Let_def
        split: option.splits prod.splits send_result.splits if_splits)
  show "files (state (verify_mongo w uid code d)) c \<noteq> None"
    using assms by (simp add: verify_mongo_def User_findOneAndUpdate_def split: option.splits)
  show "files (state (deletefile_mongo cfg uid arg d)) c \<noteq> None"
    using assms by (simp add: deletefile_mongo_def split: option.splits)
  show "files (state (ban_mongo cfg w uid target d)) c \<noteq> None"
    using assms by (simp add: ban_mongo_def User_findOneAndUpdate_def split: option.splits)
  show "upload_mongo cfg w uid msg d = Some r \<Longrightarrow> files (state r) c \<noteq> None"
    using assms
    by (auto simp: upload_mongo_def Let_def User_findOneAndUpdate_def File_save_def
        split: prod.splits option.splits if_splits)
qed

text \<open>
  C2 fails in \<^verbatim>\<open>index.js\<close>, whose file handler assigns \<^verbatim>\<open>db.files[shortCode]\<close> without
  looking the code up. The store holds a file under \<^verbatim>\<open>a1b2c3d4\<close>; user 8 uploads a
  document and \<^verbatim>\<open>generateCode()\<close> draws \<^verbatim>\<open>a1b2c3d4\<close> again: the upload returns that code,
  and the record stored under it is now the new one.
\<close>

theorem upload_idx_reissues_code:
  "files (store_idx Map.empty []) ''a1b2c3d4'' = Some report_idx
   \<and> outcome (upload_idx bot_cfg (world_of (Status ''left'') RequestFailed SendFailed) 8 pdf
        (store_idx Map.empty [])) = STORED ''a1b2c3d4''
   \<and> files (state (upload_idx bot_cfg (world_of (Status ''left'') RequestFailed SendFailed) 8 pdf
        (store_idx Map.empty []))) ''a1b2c3d4'' =
       Some \<lparr>fileId = ''BQACAgQAAx1'', fileType = document, caption = Some ''notes.pdf'',
             uploadedBy = 8, uploadedAt = 1000\<rparr>"
  by (simp add: example_defs upload_idx_def or_else_def Let_def)

section \<open>Consuming the challenge\<close>

text \<open>In \<^verbatim>\<open>index.js\<close> the verify callback sets \<^verbatim>\<open>verified\<close>, and neither a later
  redemption nor a later upload takes it back.\<close>

lemma verify_idx_verified:
  "map_option verified (users (state (verify_idx w uid code d)) uid) = Some True"
  by (simp add: verify_idx_def split: option.splits)

lemma start_idx_keeps_verified:
  "users d uid = Some u \<Longrightarrow> verified u \<Longrightarrow>
     users (state (start_idx cfg w uid' args d)) uid = Some u"
  by (auto simp: start_idx_def Let_def send_file_idx_def
      split: option.splits property.splits prod.splits send_result.splits)

lemma upload_idx_keeps_users:
  "users (state (upload_idx cfg w uid' msg d)) = users d"
  by (simp add: upload_idx_def Let_def split: prod.splits)

lemma verify_idx_then_redeem:
  assumes "code \<noteq> []" and "files d code = Some f"
    and "passed (checkSubscription_idx w uid (channels d))"
    and "replyWithFile w (fileType f) (fileId f) = Sent msgId"
  shows "outcome (start_idx cfg w uid (Some code) (state (verify_idx w' uid c d))) = DELIVERED msgId"
  using assms
  by (simp add: start_idx_def verify_idx_def files_get_def send_file_idx_def Let_def
      checkSubscription_idx_passed checkSubscription_idx_threw
      split: option.splits)

text \<open>In the MongoDB program the verify callback leaves \<^verbatim>\<open>isVerified\<close> as it was.\<close>

lemma verify_mongo_isVerified:
  "map_option isVerified (users (state (verify_mongo w uid code d)) uid) =
     Some (case users d uid of None \<Rightarrow> False | Some u \<Rightarrow> isVerified u)"
  by (simp add: verify_mongo_def User_findOneAndUpdate_def new_user_def split: option.splits)

text \<open>
  C4 fails in the MongoDB program. The verify callback writes the path \<^verbatim>\<open>verified\<close>,
  while the schema declares and the start handler reads \<^verbatim>\<open>isVerified\<close>. User 7, not yet
  verified, presses the button: the callback answers with success, the stored
  \<^verbatim>\<open>isVerified\<close> is still false, and redeeming \<^verbatim>\<open>a1b2c3d4\<close> afterwards ends with the
  verification prompt again.
\<close>

theorem verify_mongo_leaves_unverified:
  "outcome (verify_mongo (world_of (Status ''member'') RequestFailed (Sent 55)) 7 ''a1b2c3d4''
      (store_mongo newcomer [])) = VERIFIED
   \<and> map_option isVerified (users (state (verify_mongo
        (world_of (Status ''member'') RequestFailed (Sent 55)) 7 ''a1b2c3d4''
        (store_mongo newcomer []))) 7) = Some False
   \<and> outcome (start_mongo bot_cfg (world_of (Status ''member'') RequestFailed (Sent 55)) 7
        (Some ''a1b2c3d4'')
        (state (verify_mongo (world_of (Status ''member'') RequestFailed (Sent 55)) 7 ''a1b2c3d4''
           (store_mongo newcomer [])))) =
       PENDING_VERIFICATION (JStr ''https://t.me/FileStoreBot?start=a1b2c3d4'')"
  by (simp add: example_defs handler_defs verify_mongo_def)

section \<open>The shortener's fallback\<close>

text \<open>\<^verbatim>\<open>createShortLink\<close> returns the original link when the shortener is not configured,
  when the request is rejected, when the body reports the status \<^verbatim>\<open>error\<close>, and when the
  body is \<^verbatim>\<open>null\<close> or missing.\<close>

lemma createShortLink_falls_back:
  "\<not> truthy (adlink_domain s) \<Longrightarrow> fst (createShortLink s w url) = JStr url"
  "\<not> truthy (adlink_api s) \<Longrightarrow> fst (createShortLink s w url) = JStr url"
  "adlink_domain s = Some domain \<Longrightarrow> adlink_api s = Some api \<Longrightarrow>
     axios_get w (apiUrl domain api url) = RequestFailed \<Longrightarrow>
     fst (createShortLink s w url) = JStr url"
  "adlink_domain s = Some domain \<Longrightarrow> adlink_api s = Some api \<Longrightarrow>
     axios_get w (apiUrl domain api url) = Response data \<Longrightarrow>
     get_prop data ''status'' = Inr (JStr ''error'') \<or> data = JNull \<or> data = JUndefined \<Longrightarrow>
     fst (createShortLink s w url) = JStr url"
  by (auto simp: createShortLink_def split: option.splits http_result.splits sum.splits)

text \<open>
  C9 fails on a malformed response. With the shortener configured and the GET answered
  by a body that carries no \<^verbatim>\<open>shortenedUrl\<close> - an empty object, an HTML error page, an
  object with another status - \<^verbatim>\<open>createShortLink\<close> returns \<^verbatim>\<open>undefined\<close>, whatever the
  link was, and not the original link.
\<close>

theorem createShortLink_malformed_response:
  "fst (createShortLink adlink (world_of m (Response (JObj [])) s) url) = JUndefined
   \<and> fst (createShortLink adlink (world_of m (Response (JStr ''<html>Bad Gateway</html>'')) s) url)
       = JUndefined
   \<and> fst (createShortLink adlink
        (world_of m (Response (JObj [(''status'', JStr ''success'')])) s) url) = JUndefined"
  by (simp add: createShortLink_def adlink_def world_of_def)

section \<open>Uploading\<close>

text \<open>\<^verbatim>\<open>index.js\<close>: every upload stores a record of the uploader's file under the code
  drawn and replies with the deep link of that code; when the code is not empty, the
  start handler finds the record under it.\<close>

lemma upload_idx_stores:
  "outcome (upload_idx cfg w uid msg d) = STORED (generateCode w 0)
   \<and> trace (upload_idx cfg w uid msg d) =
       [ForwardToLog, LogMessage ''New File Uploaded'',
        Reply (Uploaded (''https://t.me/'' @ botUsername cfg @ ''?start='' @ generateCode w 0)
                 (generateCode w 0))]
   \<and> (\<exists>f. files_get (files (state (upload_idx cfg w uid msg d))) (generateCode w 0) = Own f
          \<and> uploadedBy f = uid \<and> fileId f = fst (media_idx (media msg))
          \<and> fileType f = fst (snd (media_idx (media msg))))"
  by (simp add: upload_idx_def Let_def files_get_def deepLink_def split: prod.splits)

lemma upload_idx_example:
  "trace (upload_idx bot_cfg (world_of (Status ''left'') RequestFailed SendFailed) 7 pdf
      \<lparr>users = Map.empty, files = Map.empty, settings = adlink, channels = [news]\<rparr>) =
     [ForwardToLog, LogMessage ''New File Uploaded'',
      Reply (Uploaded ''https://t.me/FileStoreBot?start=a1b2c3d4'' ''a1b2c3d4'')]
   \<and> files (state (upload_idx bot_cfg (world_of (Status ''left'') RequestFailed SendFailed) 7 pdf
      \<lparr>users = Map.empty, files = Map.empty, settings = adlink, channels = [news]\<rparr>)) =
     [''a1b2c3d4'' \<mapsto> \<lparr>fileId = ''BQACAgQAAx1'', fileType = document,
        caption = Some ''notes.pdf'', uploadedBy = 7, uploadedAt = 1000\<rparr>]"
  by (simp add: example_defs upload_idx_def or_else_def Let_def deepLink_def)

text \<open>The MongoDB program: the first file of a collection is stored, under a code that
  is not empty, and its deep link is sent.\<close>

lemma upload_mongo_first:
  assumes "files d = Map.empty" and "generateCode w 0 \<noteq> []"
  shows "\<exists>r f. upload_mongo cfg w uid msg d = Some r \<and> outcome r = STORED (generateCode w 0)
           \<and> trace r = [ForwardToLog, LogMessage ''New File Uploaded'',
                Reply (Uploaded (''https://t.me/'' @ botUsername cfg @ ''?start='' @ generateCode w 0)
                         (generateCode w 0))]
           \<and> File_findOne_active (state r) (generateCode w 0) = Some f \<and> uploadedBy f = uid
           \<and> fileId f = fst (media_mongo (media msg))"
proof -
  have "uniqueCode w d 0 = Some (generateCode w 0)"
    using assms by (subst uniqueCode.simps) simp
  moreover obtain fid ftype fname fsize where "media_mongo (media msg) = (fid, ftype, fname, fsize)"
    by (cases "media_mongo (media msg)")
  ultimately show ?thesis using assms
    by (cases "users d uid")
      (simp_all add: upload_mongo_def Let_def User_findOneAndUpdate_def File_findOne_active_def
        File_save_def deepLink_def)
qed

lemma upload_mongo_example:
  "map_option trace (upload_mongo bot_cfg (world_of (Status ''left'') RequestFailed SendFailed)
      7 pdf fresh_mongo) =
     Some [ForwardToLog, LogMessage ''New File Uploaded'',
           Reply (Uploaded ''https://t.me/FileStoreBot?start=a1b2c3d4'' ''a1b2c3d4'')]
   \<and> map_option (\<lambda>r. files (state r)) (upload_mongo bot_cfg
      (world_of (Status ''left'') RequestFailed SendFailed) 7 pdf fresh_mongo) =
     Some [''a1b2c3d4'' \<mapsto> \<lparr>fileId = ''BQACAgQAAx1'', fileType = document,
        caption = Some ''notes.pdf'', uploadedBy = 7, fileName = Some ''notes.pdf'',
        fileSize = Some 4096, shortCode = ''a1b2c3d4'', views = 0, downloads = 0,
        isActive = True, createdAt = 1000\<rparr>]"
  by (simp add: example_defs upload_mongo_def or_else_def Let_def deepLink_def File_save_def
      uniqueCode.simps User_findOneAndUpdate_def)

text \<open>Once the collection holds a record, an upload whose loop finds a free code ends in
  the \<^verbatim>\<open>catch\<close>: the save is rejected, the store is as it was and the reply is the error
  text. So does an upload that draws the empty code.\<close>

lemma upload_mongo_later:
  assumes "files d \<noteq> Map.empty" and "files d (generateCode w n) = None"
  shows "upload_mongo cfg w uid msg d =
           Some \<lparr>state = d, trace = [Reply (Text ''Error uploading file. Please try again.'')],
                 outcome = UPLOAD_FAILED\<rparr>"
proof -
  obtain c where "uniqueCode w d 0 = Some c"
    using uniqueCode_returns [OF assms(2), of 0] by auto
  then show ?thesis using assms(1)
    by (simp add: upload_mongo_def Let_def File_save_def split: prod.splits)
qed

lemma upload_mongo_empty_code:
  assumes "generateCode w 0 = []" and "files d [] = None"
  shows "upload_mongo cfg w uid msg d =
           Some \<lparr>state = d, trace = [Reply (Text ''Error uploading file. Please try again.'')],
                 outcome = UPLOAD_FAILED\<rparr>"
proof -
  have "uniqueCode w d 0 = Some []"
    using assms by (subst uniqueCode.simps) simp
  then show ?thesis
    by (simp add: upload_mongo_def Let_def File_save_def split: prod.splits)
qed

text \<open>No handler gates the upload: the code, the calls and the files stored are the same
  whatever the user table holds (banned or not, verified or not) and whatever the
  membership queries would answer.\<close>

lemma upload_idx_ignores_users:
  "outcome (upload_idx cfg (w\<lparr>getChatMember := g\<rparr>) uid msg (d\<lparr>users := us\<rparr>)) =
     outcome (upload_idx cfg w uid msg d)
   \<and> trace (upload_idx cfg (w\<lparr>getChatMember := g\<rparr>) uid msg (d\<lparr>users := us\<rparr>)) =
     trace (upload_idx cfg w uid msg d)
   \<and> files (state (upload_idx cfg (w\<lparr>getChatMember := g\<rparr>) uid msg (d\<lparr>users := us\<rparr>))) =
     files (state (upload_idx cfg w uid msg d))"
  by (simp add: upload_idx_def Let_def split: prod.splits)

lemma upload_mongo_ignores_users:
  "map_option (\<lambda>r. (outcome r, trace r, files (state r)))
     (upload_mongo cfg (w\<lparr>getChatMember := g\<rparr>) uid msg (d\<lparr>users := us\<rparr>)) =
   map_option (\<lambda>r. (outcome r, trace r, files (state r))) (upload_mongo cfg w uid msg d)"
proof -
  have "uniqueCode (w\<lparr>getChatMember := g\<rparr>) (d\<lparr>users := us\<rparr>) 0 = uniqueCode w d 0"
    by (rule uniqueCode_cong) simp_all
  then show ?thesis
    by (simp add: upload_mongo_def Let_def User_findOneAndUpdate_def File_save_def
        split: prod.splits option.splits)
qed

text \<open>
  C10 fails in the MongoDB program, for a reason that is no gate. \<^verbatim>\<open>FileSchema\<close> gives
  \<^verbatim>\<open>fileUniqueId\<close> a unique index and the file handler never sets the field, so only
  the first record of the collection can be saved. The store holds the file
  \<^verbatim>\<open>a1b2c3d4\<close>; user 8, who is neither banned nor gated, uploads a document; the loop
  skips the taken draw \<^verbatim>\<open>a1b2c3d4\<close> and settles on \<^verbatim>\<open>e5f6g7h8\<close>; the save is rejected:
  the only call is the reply \<^verbatim>\<open>Error uploading file. Please try again.\<close>, no record is
  stored under the new code and no link is sent.
\<close>

theorem upload_mongo_rejects_second_file:
  "map_option outcome (upload_mongo bot_cfg (world_of (Status ''member'') RequestFailed (Sent 55))
      8 pdf (store_mongo Map.empty [])) = Some UPLOAD_FAILED
   \<and> map_option trace (upload_mongo bot_cfg (world_of (Status ''member'') RequestFailed (Sent 55))
      8 pdf (store_mongo Map.empty [])) =
       Some [Reply (Text ''Error uploading file. Please try again.'')]
   \<and> map_option (\<lambda>r. files (state r)) (upload_mongo bot_cfg
      (world_of (Status ''member'') RequestFailed (Sent 55)) 8 pdf (store_mongo Map.empty [])) =
       Some [''a1b2c3d4'' \<mapsto> report_mongo]"
  by (simp add: example_defs upload_mongo_def Let_def File_save_def uniqueCode.simps)

end
